theory Spec2Isabelle
  imports Main "HOL-Library.Sublist" "HOL-Library.Word"
begin

section \<open>Python values, exceptions and string helpers\<close>

text \<open>
  The plugin handles dynamically typed values: what \<^verbatim>\<open>RequestManager.request\<close> returns is
  \<^verbatim>\<open>Union[bytes, str, dict, None]\<close>, and a JSON body can be any JSON value. They are
  one datatype; JSON floats are left out (no operation modelled here inspects a number).
  A Python \<^verbatim>\<open>dict\<close> keeps its insertion order, so it is an association list with
  distinct keys.
\<close>

type_synonym bytes = "8 word list"

datatype pyval =
    PNone
  | PBool bool
  | PInt int
  | PStr string
  | PBytes bytes
  | PList "pyval list"
  | PDict "(string \<times> pyval) list"

text \<open>Every exception here is a subclass of Python's \<^verbatim>\<open>Exception\<close>.\<close>

datatype exn =
    ClientResponseError nat
  | ClientConnectionError string
  | TimeoutError
  | DecodeError string
  | RuntimeError string
  | IndexError
  | KeyError string
  | OSError string

type_synonym params = "(string \<times> string) list"

text \<open>\<^verbatim>\<open>k in msg\<close> on two strings: contiguous containment.\<close>

definition str_contains :: "string \<Rightarrow> string \<Rightarrow> bool" where
  "str_contains k msg = sublist k msg"

text \<open>
  A character of a Python \<^verbatim>\<open>str\<close> is a code point; a \<^typ>\<open>char\<close> holds the code points below
  256, and text with code points beyond that is outside this model. \<^verbatim>\<open>str.lower\<close> maps
  \<^verbatim>\<open>A\<close>--\<^verbatim>\<open>Z\<close> and the upper-case letters of the Latin-1 block (192--222 except the
  multiplication sign 215) to the code point 32 above.
\<close>

definition lower_char :: "char \<Rightarrow> char" where
  "lower_char c =
     (let n = of_char c :: nat in
      if (65 \<le> n \<and> n \<le> 90) \<or> (192 \<le> n \<and> n \<le> 222 \<and> n \<noteq> 215) then char_of (n + 32) else c)"

definition lower :: "string \<Rightarrow> string" where
  "lower s = map lower_char s"

text \<open>
  \<^verbatim>\<open>str.strip()\<close> removes the characters for which \<^verbatim>\<open>str.isspace\<close> holds. These are the
  code points U+0009--U+000D, U+001C--U+0020, U+0085, U+00A0, U+1680, U+2000--U+200A,
  U+2028, U+2029, U+202F, U+205F and U+3000.
\<close>

definition isspace_codepoint :: "nat \<Rightarrow> bool" where
  "isspace_codepoint n =
     ((9 \<le> n \<and> n \<le> 13) \<or> (28 \<le> n \<and> n \<le> 32) \<or> n = 133 \<or> n = 160 \<or> n = 5760 \<or>
      (8192 \<le> n \<and> n \<le> 8202) \<or> n = 8232 \<or> n = 8233 \<or> n = 8239 \<or> n = 8287 \<or> n = 12288)"

text \<open>On a \<^typ>\<open>char\<close> only the code points below 256 of that list can occur.\<close>

definition isspace :: "char \<Rightarrow> bool" where
  "isspace c =
     (let n = of_char c :: nat in (9 \<le> n \<and> n \<le> 13) \<or> (28 \<le> n \<and> n \<le> 32) \<or> n = 133 \<or> n = 160)"

lemma isspace_codepoint_char: "isspace c = isspace_codepoint (of_char c)"
proof -
  define n :: nat where "n = of_char c"
  have "n < 256" unfolding n_def by (rule nat_of_char_less_256)
  then have "isspace_codepoint n \<longleftrightarrow>
      (9 \<le> n \<and> n \<le> 13) \<or> (28 \<le> n \<and> n \<le> 32) \<or> n = 133 \<or> n = 160"
    unfolding isspace_codepoint_def by arith
  then show ?thesis by (simp add: isspace_def Let_def n_def)
qed

definition strip :: "string \<Rightarrow> string" where
  "strip s = rev (dropWhile isspace (rev (dropWhile isspace s)))"

definition startswith :: "string \<Rightarrow> string \<Rightarrow> bool" where
  "startswith s p = prefix p s"

section \<open>The HTTP session and \<^verbatim>\<open>RequestManager.request\<close>\<close>

text \<open>
  What \<^verbatim>\<open>aiohttp\<close> hands back for one GET: the status, the \<^verbatim>\<open>Content-Type\<close> header
  (absent or present) and the three ways the code reads the body, each of which can raise.
\<close>

record response =
  resp_status :: nat
  resp_content_type :: "string option"
  resp_json :: "exn + pyval"
  resp_text :: "exn + string"
  resp_read :: "exn + bytes"

type_synonym http_request = "string \<times> params option"

text \<open>
  The network is the environment: it answers a request, given all requests sent before
  it, with a response or with the exception \<^verbatim>\<open>session.get\<close> raises (connection error,
  timeout). The fixed \<^verbatim>\<open>timeout=30\<close> is part of the environment's answer.
\<close>

type_synonym net = "http_request list \<Rightarrow> http_request \<Rightarrow> exn + response"

datatype log_entry =
    RequestFailed string exn
  | CallFailed string exn
  | CacheFailed string exn

record world =
  sent :: "http_request list"
  logged :: "log_entry list"

text \<open>
  The body of the \<^verbatim>\<open>async with\<close> block of \<^verbatim>\<open>request\<close>: \<^verbatim>\<open>raise_for_status\<close> raises from
  status 400 on; \<^verbatim>\<open>test_mode\<close> returns \<^verbatim>\<open>None\<close> before the body is read; otherwise the
  lower-cased content type selects the decoder.
\<close>

definition decode :: "bool \<Rightarrow> response \<Rightarrow> exn + pyval" where
  "decode test_mode resp =
     (if 400 \<le> resp_status resp then Inl (ClientResponseError (resp_status resp))
      else if test_mode then Inr PNone
      else
        let ct = lower (case resp_content_type resp of None \<Rightarrow> [] | Some c \<Rightarrow> c) in
        if str_contains ''application/json'' ct then resp_json resp
        else if str_contains ''text/'' ct then
          (case resp_text resp of Inl e \<Rightarrow> Inl e | Inr s \<Rightarrow> Inr (PStr (strip s)))
        else
          (case resp_read resp of Inl e \<Rightarrow> Inl e | Inr b \<Rightarrow> Inr (PBytes b)))"

text \<open>The outcome of the \<^verbatim>\<open>try\<close> block for one URL, given the requests sent so far.\<close>

definition url_outcome :: "net \<Rightarrow> params option \<Rightarrow> bool \<Rightarrow> http_request list \<Rightarrow> string \<Rightarrow> exn + pyval" where
  "url_outcome nw ps test_mode hist u =
     (case nw hist (u, ps) of Inl e \<Rightarrow> Inl e | Inr resp \<Rightarrow> decode test_mode resp)"

definition attempt :: "net \<Rightarrow> params option \<Rightarrow> bool \<Rightarrow> string \<Rightarrow> world \<Rightarrow> (exn + pyval) \<times> world" where
  "attempt nw ps test_mode u w =
     (url_outcome nw ps test_mode (sent w) u, w\<lparr>sent := sent w @ [(u, ps)]\<rparr>)"

text \<open>
  The \<^verbatim>\<open>for u in urls\<close> loop with its \<^verbatim>\<open>last_exc\<close>. After the loop \<^verbatim>\<open>if last_exc: raise\<close>;
  otherwise the function falls off its end and returns \<^verbatim>\<open>None\<close>.
\<close>

fun request_loop ::
  "net \<Rightarrow> params option \<Rightarrow> bool \<Rightarrow> string list \<Rightarrow> exn option \<Rightarrow> world \<Rightarrow> (exn + pyval) \<times> world" where
  "request_loop nw ps test_mode [] last_exc w =
     (case last_exc of Some e \<Rightarrow> (Inl e, w) | None \<Rightarrow> (Inr PNone, w))"
| "request_loop nw ps test_mode (u # us) last_exc w =
     (case attempt nw ps test_mode u w of
        (Inr v, w1) \<Rightarrow> (Inr v, w1)
      | (Inl e, w1) \<Rightarrow>
          request_loop nw ps test_mode us (Some e) (w1\<lparr>logged := logged w1 @ [RequestFailed u e]\<rparr>))"

definition request :: "net \<Rightarrow> string list \<Rightarrow> params option \<Rightarrow> bool \<Rightarrow> world \<Rightarrow> (exn + pyval) \<times> world" where
  "request nw urls ps test_mode w = request_loop nw ps test_mode urls None w"

text \<open>
  For stating properties: the outcome of the \<open>i\<close>-th URL of the list when every URL
  before it has been requested (and has failed), counted from the world \<open>w\<close> the call
  started in.
\<close>

definition outcome_at :: "net \<Rightarrow> params option \<Rightarrow> bool \<Rightarrow> world \<Rightarrow> string list \<Rightarrow> nat \<Rightarrow> exn + pyval" where
  "outcome_at nw ps test_mode w urls i =
     url_outcome nw ps test_mode (sent w @ map (\<lambda>u. (u, ps)) (take i urls)) (urls ! i)"

section \<open>\<^verbatim>\<open>RequestManager.get_data\<close>\<close>

text \<open>
  \<^verbatim>\<open>get_data\<close> calls three helpers of \<^verbatim>\<open>core/utils.py\<close> and BeautifulSoup's
  \<^verbatim>\<open>get_text\<close>. They are parameters of the model: \<^verbatim>\<open>extract_url\<close> returns the URL found
  in a string or \<^verbatim>\<open>None\<close>, \<^verbatim>\<open>get_nested_value\<close> resolves a dotted path in a dict (or
  raises), \<^verbatim>\<open>dict_to_string\<close> renders a dict, \<^verbatim>\<open>get_text\<close> is the HTML text extraction.
\<close>

record helpers =
  extract_url :: "string \<Rightarrow> string option"
  get_nested_value :: "(string \<times> pyval) list \<Rightarrow> string \<Rightarrow> exn + pyval"
  dict_to_string :: "(string \<times> pyval) list \<Rightarrow> string"
  get_text :: "string \<Rightarrow> string"

text \<open>
  Lines 54--60: \<^verbatim>\<open>if isinstance(data, str) and api_type != "text"\<close>, then
  \<^verbatim>\<open>if url := extract_url(data)\<close> (a truthy result: a non-empty string), then
  \<^verbatim>\<open>downloaded = await self.request(urls)\<close>: the same \<^verbatim>\<open>urls\<close>, no params, and
  \<^verbatim>\<open>RuntimeError\<close> with the found URL in its message when the result is not \<^verbatim>\<open>bytes\<close>. An
  exception of that second \<^verbatim>\<open>request\<close> is not caught here.
\<close>

definition download_step ::
  "net \<Rightarrow> helpers \<Rightarrow> string list \<Rightarrow> string \<Rightarrow> pyval \<Rightarrow> world \<Rightarrow> (exn + pyval) \<times> world" where
  "download_step nw h urls api_type data w =
     (case data of
        PStr s \<Rightarrow>
          if api_type \<noteq> ''text'' then
            (case extract_url h s of
               None \<Rightarrow> (Inr data, w)
             | Some url \<Rightarrow>
                 if url = [] then (Inr data, w)
                 else
                   (case request nw urls None False w of
                      (Inl e, w1) \<Rightarrow> (Inl e, w1)
                    | (Inr downloaded, w1) \<Rightarrow>
                        (case downloaded of
                           PBytes b \<Rightarrow> (Inr downloaded, w1)
                         | _ \<Rightarrow> (Inl (RuntimeError url), w1))))
          else (Inr data, w)
      | _ \<Rightarrow> (Inr data, w))"

text \<open>Lines 63--68: \<^verbatim>\<open>if isinstance(data, dict) and target\<close>.\<close>

definition target_step :: "helpers \<Rightarrow> string \<Rightarrow> pyval \<Rightarrow> exn + pyval" where
  "target_step h target data =
     (case data of
        PDict d \<Rightarrow>
          if target \<noteq> [] then
            (case get_nested_value h d target of
               Inl e \<Rightarrow> Inl e
             | Inr nested_value \<Rightarrow>
                 (case nested_value of
                    PDict nd \<Rightarrow> Inr (PStr (dict_to_string h nd))
                  | _ \<Rightarrow> Inr nested_value))
          else Inr data
      | _ \<Rightarrow> Inr data)"

text \<open>Lines 71--74: a string that, stripped, starts with the HTML doctype.\<close>

definition html_step :: "helpers \<Rightarrow> pyval \<Rightarrow> pyval" where
  "html_step h data =
     (case data of
        PStr s \<Rightarrow> if startswith (strip s) ''<!DOCTYPE html>'' then PStr (get_text h s) else data
      | _ \<Rightarrow> data)"

text \<open>The value of \<^verbatim>\<open>data\<close> when line 76 is reached, or the exception raised before.\<close>

definition final_data ::
  "net \<Rightarrow> helpers \<Rightarrow> string list \<Rightarrow> params option \<Rightarrow> string \<Rightarrow> string \<Rightarrow> world \<Rightarrow> (exn + pyval) \<times> world" where
  "final_data nw h urls ps api_type target w =
     (case request nw urls ps False w of
        (Inl e, w1) \<Rightarrow> (Inl e, w1)
      | (Inr data, w1) \<Rightarrow>
          (case download_step nw h urls api_type data w1 of
             (Inl e, w2) \<Rightarrow> (Inl e, w2)
           | (Inr data2, w2) \<Rightarrow>
               (case target_step h target data2 of
                  Inl e \<Rightarrow> (Inl e, w2)
                | Inr data3 \<Rightarrow> (Inr (html_step h data3), w2))))"

definition as_text :: "pyval \<Rightarrow> string option" where
  "as_text data = (case data of PStr s \<Rightarrow> Some s | _ \<Rightarrow> None)"

definition as_bytes :: "pyval \<Rightarrow> bytes option" where
  "as_bytes data = (case data of PBytes b \<Rightarrow> Some b | _ \<Rightarrow> None)"

definition get_data ::
  "net \<Rightarrow> helpers \<Rightarrow> string list \<Rightarrow> params option \<Rightarrow> string \<Rightarrow> string \<Rightarrow> world \<Rightarrow>
   (exn + string option \<times> bytes option) \<times> world" where
  "get_data nw h urls ps api_type target w =
     (case final_data nw h urls ps api_type target w of
        (Inl e, w1) \<Rightarrow> (Inl e, w1)
      | (Inr data, w1) \<Rightarrow> (Inr (as_text data, as_bytes data), w1))"

section \<open>The endpoint registry (\<^verbatim>\<open>APIManager\<close>)\<close>

text \<open>
  A stored definition is a JSON object whose fields may be absent; \<^verbatim>\<open>keyword\<close> and
  \<^verbatim>\<open>url\<close> are a string or a list of strings. \<^verbatim>\<open>self.apis\<close> is a dict from the primary
  keyword to the definition, in insertion order.
\<close>

datatype str_or_list = Str string | StrList "string list"

record raw_api =
  r_keyword :: "str_or_list option"
  r_url :: "str_or_list option"
  r_type :: "string option"
  r_params :: "params option"
  r_target :: "string option"
  r_fuzzy :: "bool option"
  r_priority :: "int option"

type_synonym apis = "(string \<times> raw_api) list"

text \<open>The empty dict \<^verbatim>\<open>{}\<close> that \<^verbatim>\<open>self.apis.get(name, {})\<close> falls back to.\<close>

definition empty_api :: raw_api where
  "empty_api = \<lparr>r_keyword = None, r_url = None, r_type = None, r_params = None,
     r_target = None, r_fuzzy = None, r_priority = None\<rparr>"

text \<open>\<^verbatim>\<open>d[k] = v\<close>: an existing key keeps its place, a new key goes last.\<close>

fun dict_set :: "('k \<times> 'v) list \<Rightarrow> 'k \<Rightarrow> 'v \<Rightarrow> ('k \<times> 'v) list" where
  "dict_set [] k v = [(k, v)]"
| "dict_set ((k', v') # d) k v = (if k' = k then (k, v) # d else (k', v') # dict_set d k v)"

fun dict_get :: "('k \<times> 'v) list \<Rightarrow> 'k \<Rightarrow> 'v option" where
  "dict_get [] k = None"
| "dict_get ((k', v') # d) k = (if k' = k then Some v' else dict_get d k)"

datatype reg_log = MissingKeyword | AddedApi string

text \<open>
  The manager's state: the dict, the content of \<^verbatim>\<open>apis.json\<close> (\<^verbatim>\<open>None\<close> while the file
  does not exist) and its log. Writing the file is taken to succeed.
\<close>

record registry =
  reg_apis :: apis
  reg_file :: "apis option"
  reg_logged :: "reg_log list"

definition save_data_file :: "registry \<Rightarrow> registry" where
  "save_data_file st = st\<lparr>reg_file := Some (reg_apis st)\<rparr>"

text \<open>
  \<^verbatim>\<open>add_api\<close>, line 68:
  \<^verbatim>\<open>name = api_info.get("keyword", [""])[0] if isinstance(api_info.get("keyword"), list)
         else api_info.get("keyword", "")\<close>.
  Indexing an empty list raises \<^verbatim>\<open>IndexError\<close>, before anything is changed.
\<close>

definition primary_name :: "raw_api \<Rightarrow> exn + string" where
  "primary_name api_info =
     (case r_keyword api_info of
        Some (StrList ks) \<Rightarrow> (case ks of [] \<Rightarrow> Inl IndexError | k # _ \<Rightarrow> Inr k)
      | Some (Str s) \<Rightarrow> Inr s
      | None \<Rightarrow> Inr [])"

definition add_api :: "raw_api \<Rightarrow> registry \<Rightarrow> exn + registry" where
  "add_api api_info st =
     (case primary_name api_info of
        Inl e \<Rightarrow> Inl e
      | Inr name \<Rightarrow>
          if name = [] then Inr (st\<lparr>reg_logged := reg_logged st @ [MissingKeyword]\<rparr>)
          else
            let st1 = st\<lparr>reg_apis := dict_set (reg_apis st) name api_info\<rparr>;
                st2 = save_data_file st1
            in Inr (st2\<lparr>reg_logged := reg_logged st2 @ [AddedApi name]\<rparr>))"

subsection \<open>\<^verbatim>\<open>normalize_api_data\<close>\<close>

record normalized =
  n_name :: string
  n_urls :: "string list"
  n_type :: string
  n_params :: params
  n_target :: string
  n_fuzzy :: bool
  n_priority :: int

definition ALLOWED_TYPES :: "string list" where
  "ALLOWED_TYPES = [''text'', ''image'', ''video'', ''audio'']"

definition default_api_type :: string where
  "default_api_type = ''image''"

definition normalize_api_data :: "apis \<Rightarrow> string \<Rightarrow> normalized" where
  "normalize_api_data d name =
     (let raw = (case dict_get d name of None \<Rightarrow> empty_api | Some r \<Rightarrow> r);
          url = (case r_url raw of None \<Rightarrow> Str [] | Some u \<Rightarrow> u);
          urls = (case url of Str s \<Rightarrow> [s] | StrList l \<Rightarrow> l);
          api_type = (case r_type raw of None \<Rightarrow> [] | Some t \<Rightarrow> t);
          api_type = (if api_type \<in> set ALLOWED_TYPES then api_type else default_api_type)
      in \<lparr>n_name = name,
          n_urls = urls,
          n_type = api_type,
          n_params = (case r_params raw of None \<Rightarrow> [] | Some p \<Rightarrow> p),
          n_target = (case r_target raw of None \<Rightarrow> [] | Some t \<Rightarrow> t),
          n_fuzzy = (case r_fuzzy raw of None \<Rightarrow> False | Some f \<Rightarrow> f),
          n_priority = (case r_priority raw of None \<Rightarrow> 0 | Some p \<Rightarrow> p)\<rparr>)"

subsection \<open>\<^verbatim>\<open>match_api_by_name\<close>\<close>

definition keywords_of :: "raw_api \<Rightarrow> string list" where
  "keywords_of raw =
     (case r_keyword raw of None \<Rightarrow> [] | Some (Str s) \<Rightarrow> [s] | Some (StrList ks) \<Rightarrow> ks)"

definition is_fuzzy :: "raw_api \<Rightarrow> bool" where
  "is_fuzzy raw = (case r_fuzzy raw of None \<Rightarrow> False | Some f \<Rightarrow> f)"

definition priority_of :: "raw_api \<Rightarrow> int" where
  "priority_of raw = (case r_priority raw of None \<Rightarrow> 0 | Some p \<Rightarrow> p)"

text \<open>Lines 140--146: the exact test, and the fuzzy test only when it fails.\<close>

definition matched :: "raw_api \<Rightarrow> string \<Rightarrow> bool" where
  "matched raw msg =
     (if msg \<in> set (keywords_of raw) then True
      else if is_fuzzy raw \<and> list_ex (\<lambda>k. str_contains k msg) (keywords_of raw) then True
      else False)"

type_synonym match = "int \<times> string \<times> raw_api"

definition collect_matches :: "apis \<Rightarrow> string \<Rightarrow> match list" where
  "collect_matches d msg =
     map (\<lambda>(key, raw). (priority_of raw, key, raw)) (filter (\<lambda>(key, raw). matched raw msg) d)"

text \<open>
  \<^verbatim>\<open>matches.sort(key=lambda x: x[0], reverse=True)\<close>: a stable sort, descending.
\<close>

definition sort_matches :: "match list \<Rightarrow> match list" where
  "sort_matches ms = sort_key (\<lambda>m. - fst m) ms"

text \<open>
  \<^verbatim>\<open>random.choice(seq)\<close> returns \<^verbatim>\<open>seq[i]\<close> for a drawn \<open>i < len(seq)\<close>; the draw \<open>r\<close> of
  the random source is a parameter, reduced to the range. The list is never empty here.
\<close>

definition random_choice :: "nat \<Rightarrow> 'a list \<Rightarrow> 'a" where
  "random_choice r xs = xs ! (r mod length xs)"

definition match_api_by_name :: "apis \<Rightarrow> nat \<Rightarrow> string \<Rightarrow> normalized option" where
  "match_api_by_name d r msg =
     (case sort_matches (collect_matches d msg) of
        [] \<Rightarrow> None
      | m # ms \<Rightarrow>
          let max_priority = fst m;
              same_priority_matches = filter (\<lambda>m'. fst m' = max_priority) (m # ms);
              selected = random_choice r same_priority_matches
          in Some (normalize_api_data d (fst (snd selected))))"

section \<open>The availability prober (\<^verbatim>\<open>batch_test_apis\<close>)\<close>



















section \<open>The fallback orchestrator (\<^verbatim>\<open>APIsPlugin.call_api\<close>)\<close>

text \<open>
  \<^verbatim>\<open>core/local.py\<close> is a collaborator: \<^verbatim>\<open>save_data\<close> and \<^verbatim>\<open>get_data\<close> of
  \<^verbatim>\<open>LocalDataManager\<close> are parameters acting on a cache state \<open>'c\<close>; each returns a
  (text, path) pair or raises.
\<close>

record 'c local_manager =
  save_data :: "'c \<Rightarrow> string \<Rightarrow> string \<Rightarrow> string option \<Rightarrow> bytes option \<Rightarrow>
    (exn + string option \<times> string option) \<times> 'c"
  local_get_data :: "'c \<Rightarrow> string \<Rightarrow> string \<Rightarrow> (exn + string option \<times> string option) \<times> 'c"

text \<open>Python truth of an optional \<^verbatim>\<open>str\<close>, \<^verbatim>\<open>bytes\<close> or \<^verbatim>\<open>dict\<close>: present and not empty.\<close>

definition truthy :: "'a list option \<Rightarrow> bool" where
  "truthy x = (case x of None \<Rightarrow> False | Some l \<Rightarrow> l \<noteq> [])"

text \<open>Lines 264--271, the local fallback.\<close>

definition local_fallback ::
  "'c local_manager \<Rightarrow> normalized \<Rightarrow> world \<Rightarrow> 'c \<Rightarrow>
   (string option \<times> string option \<times> string) \<times> world \<times> 'c" where
  "local_fallback lm api_data w c =
     (case local_get_data lm c (n_type api_data) (n_name api_data) of
        (Inr (local_text, local_path), c1) \<Rightarrow> ((local_text, local_path, ''local''), w, c1)
      | (Inl e, c1) \<Rightarrow>
          ((None, None, ''error''),
           w\<lparr>logged := logged w @ [CacheFailed (n_name api_data) e]\<rparr>, c1))"

text \<open>
  Lines 243--261. The \<^verbatim>\<open>try\<close> block covers \<^verbatim>\<open>get_data\<close> and \<^verbatim>\<open>save_data\<close>; the function
  returns inside it only under \<^verbatim>\<open>if api_text or api_byte\<close>.
\<close>

definition call_api ::
  "net \<Rightarrow> helpers \<Rightarrow> 'c local_manager \<Rightarrow> normalized \<Rightarrow> params option \<Rightarrow> world \<Rightarrow> 'c \<Rightarrow>
   (string option \<times> string option \<times> string) \<times> world \<times> 'c" where
  "call_api nw h lm api_data ps w c =
     (case get_data nw h (n_urls api_data)
             (Some (if truthy ps then the ps else n_params api_data))
             (n_type api_data) (n_target api_data) w of
        (Inl e, w1) \<Rightarrow>
          local_fallback lm api_data (w1\<lparr>logged := logged w1 @ [CallFailed (n_name api_data) e]\<rparr>) c
      | (Inr (api_text, api_byte), w1) \<Rightarrow>
          if truthy api_text \<or> truthy api_byte then
            (case save_data lm c (n_type api_data) (n_name api_data) api_text api_byte of
               (Inr (saved_text, saved_path), c1) \<Rightarrow> ((saved_text, saved_path, ''api''), w1, c1)
             | (Inl e, c1) \<Rightarrow>
                 local_fallback lm api_data
                   (w1\<lparr>logged := logged w1 @ [CallFailed (n_name api_data) e]\<rparr>) c1)
          else local_fallback lm api_data w1 c)"

section \<open>\<^verbatim>\<open>normalize_api_data\<close> with object identity\<close>





















section \<open>Concrete inputs\<close>

text \<open>Small worlds, networks and registries on which the theorems below are instantiated.\<close>

definition w0 :: world where
  "w0 = \<lparr>sent = [], logged = []\<rparr>"

definition ok_response :: "string \<Rightarrow> exn + pyval \<Rightarrow> string \<Rightarrow> bytes \<Rightarrow> response" where
  "ok_response ct j t b =
     \<lparr>resp_status = 200, resp_content_type = Some ct, resp_json = j, resp_text = Inr t,
      resp_read = Inr b\<rparr>"

text \<open>A network on which \<^verbatim>\<open>good-url\<close> serves plain text and every other URL fails.\<close>

definition net_bad_good :: net where
  "net_bad_good hist rq =
     (if fst rq = ''good-url'' then
        Inr (ok_response ''text/plain'' (Inl (DecodeError ''json'')) '' hello '' [])
      else if fst rq = ''bad2'' then Inl TimeoutError
      else Inl (ClientConnectionError (fst rq)))"

text \<open>
  Stand-ins for the helpers: a string holds a URL when it contains \<^verbatim>\<open>http\<close>, a target is
  a single key, and HTML text extraction is the identity.
\<close>

definition plain_helpers :: helpers where
  "plain_helpers =
     \<lparr>extract_url = (\<lambda>s. if str_contains ''http'' s then Some s else None),
      get_nested_value = (\<lambda>d t. case dict_get d t of Some v \<Rightarrow> Inr v | None \<Rightarrow> Inl (KeyError t)),
      dict_to_string = (\<lambda>d. concat (map fst d)),
      get_text = (\<lambda>s. s)\<rparr>"

text \<open>
  Networks: one that always serves a JSON object; one that serves a URL as text on the
  first request and an image afterwards; one that times out after the first request.
\<close>

definition net_json :: net where
  "net_json hist rq =
     Inr (ok_response ''application/json'' (Inr (PDict [(''code'', PInt 1)])) ''{}'' [])"

definition net_indirect :: net where
  "net_indirect hist rq =
     (if hist = [] then
        Inr (ok_response ''text/plain'' (Inl (DecodeError ''json'')) ''http://x/y.png'' [])
      else Inr (ok_response ''image/png'' (Inl (DecodeError ''json'')) [] [1, 2, 3]))"

definition net_indirect_fail :: net where
  "net_indirect_fail hist rq =
     (if hist = [] then
        Inr (ok_response ''text/plain'' (Inl (DecodeError ''json'')) ''http://x/y.png'' [])
      else Inl TimeoutError)"

text \<open>A local cache that records the names it has saved, and a text endpoint.\<close>

definition list_cache :: "string list local_manager" where
  "list_cache =
     \<lparr>save_data = (\<lambda>c t n text byte. (Inr (text, Some (''cache/'' @ n)), c @ [n])),
      local_get_data = (\<lambda>c t n.
         if n \<in> set c then (Inr (Some ''cached'', None), c) else (Inl (OSError n), c))\<rparr>"

definition api_u :: normalized where
  "api_u = \<lparr>n_name = ''joke'', n_urls = [''u''], n_type = ''text'', n_params = [],
     n_target = [], n_fuzzy = False, n_priority = 0\<rparr>"

text \<open>Registries: an empty one, and definitions with given keywords, fuzzy flag and priority.\<close>

definition st0 :: registry where
  "st0 = \<lparr>reg_apis = [], reg_file = None, reg_logged = []\<rparr>"

definition joke_api :: raw_api where
  "joke_api = empty_api\<lparr>r_keyword := Some (StrList [''joke'', ''fun'']), r_url := Some (Str ''u''),
     r_type := Some ''text''\<rparr>"

definition kw_api :: "string list \<Rightarrow> bool \<Rightarrow> int \<Rightarrow> raw_api" where
  "kw_api ks fz p = empty_api\<lparr>r_keyword := Some (StrList ks), r_url := Some (Str ''u''),
     r_fuzzy := Some fz, r_priority := Some p\<rparr>"

definition cat_apis :: apis where
  "cat_apis = [(''cat'', kw_api [''cat''] False 3), (''kitty'', kw_api [''kitty'', ''cat''] False 5),
     (''ab'', kw_api [''ab''] True 0)]"









section \<open>Properties of \<^verbatim>\<open>request\<close>\<close>

lemma outcome_at_Cons_Suc:
  "outcome_at nw ps tm w (u # us) (Suc i) =
   outcome_at nw ps tm (w\<lparr>sent := sent w @ [(u, ps)], logged := l\<rparr>) us i"
  by (simp add: outcome_at_def)

lemma outcome_at_Cons_0:
  "outcome_at nw ps tm w (u # us) 0 = url_outcome nw ps tm (sent w) u"
  by (simp add: outcome_at_def)

lemma request_loop_all_fail:
  "\<forall>i<length urls. isl (outcome_at nw ps tm w urls i) \<Longrightarrow>
   fst (request_loop nw ps tm urls lx w) =
     (if urls = [] then (case lx of Some e \<Rightarrow> Inl e | None \<Rightarrow> Inr PNone)
      else Inl (projl (outcome_at nw ps tm w urls (length urls - 1)))) \<and>
   sent (snd (request_loop nw ps tm urls lx w)) = sent w @ map (\<lambda>u. (u, ps)) urls"
proof (induction urls arbitrary: w lx)
  case Nil
  then show ?case by (simp split: option.splits)
next
  case (Cons u us)
  let ?w1 = "w\<lparr>sent := sent w @ [(u, ps)], logged := logged w @ [RequestFailed u (projl (url_outcome nw ps tm (sent w) u))]\<rparr>"
  from Cons.prems have h0: "isl (url_outcome nw ps tm (sent w) u)"
    using outcome_at_Cons_0 [of nw ps tm w u us] by force
  then obtain e where e: "url_outcome nw ps tm (sent w) u = Inl e"
    by (cases "url_outcome nw ps tm (sent w) u") auto
  have rest: "\<forall>i<length us. isl (outcome_at nw ps tm ?w1 us i)"
  proof (intro allI impI)
    fix i assume "i < length us"
    then have "isl (outcome_at nw ps tm w (u # us) (Suc i))" using Cons.prems by simp
    then show "isl (outcome_at nw ps tm ?w1 us i)"
      by (simp add: outcome_at_Cons_Suc [where l = "logged w @ [RequestFailed u (projl (url_outcome nw ps tm (sent w) u))]"])
  qed
  have step: "request_loop nw ps tm (u # us) lx w = request_loop nw ps tm us (Some e) ?w1"
    by (simp add: attempt_def e)
  have last_eq: "us \<noteq> [] \<Longrightarrow>
      outcome_at nw ps tm ?w1 us (length us - 1) = outcome_at nw ps tm w (u # us) (length us)"
    using outcome_at_Cons_Suc [of nw ps tm w u us "length us - 1"
        "logged w @ [RequestFailed u (projl (url_outcome nw ps tm (sent w) u))]"]
    by (cases us) simp_all
  show ?case
    using Cons.IH [OF rest, of "Some e"] step e last_eq
    by (simp add: outcome_at_Cons_0)
qed

lemma request_loop_first_success:
  "i < length urls \<Longrightarrow> \<forall>j<i. isl (outcome_at nw ps tm w urls j) \<Longrightarrow>
   outcome_at nw ps tm w urls i = Inr v \<Longrightarrow>
   fst (request_loop nw ps tm urls lx w) = Inr v \<and>
   sent (snd (request_loop nw ps tm urls lx w)) = sent w @ map (\<lambda>u. (u, ps)) (take (Suc i) urls)"
proof (induction urls arbitrary: w lx i)
  case Nil
  then show ?case by simp
next
  case (Cons u us)
  show ?case
  proof (cases i)
    case 0
    with Cons.prems have "url_outcome nw ps tm (sent w) u = Inr v"
      by (simp add: outcome_at_Cons_0)
    with 0 show ?thesis by (simp add: attempt_def)
  next
    case (Suc k)
    let ?l = "logged w @ [RequestFailed u (projl (url_outcome nw ps tm (sent w) u))]"
    let ?w1 = "w\<lparr>sent := sent w @ [(u, ps)], logged := ?l\<rparr>"
    from Cons.prems Suc have "isl (outcome_at nw ps tm w (u # us) 0)" by blast
    then obtain e where e: "url_outcome nw ps tm (sent w) u = Inl e"
      by (cases "url_outcome nw ps tm (sent w) u") (auto simp: outcome_at_Cons_0)
    have step: "request_loop nw ps tm (u # us) lx w = request_loop nw ps tm us (Some e) ?w1"
      by (simp add: attempt_def e)
    have k: "k < length us" using Cons.prems Suc by simp
    have before: "\<forall>j<k. isl (outcome_at nw ps tm ?w1 us j)"
    proof (intro allI impI)
      fix j assume "j < k"
      then have "isl (outcome_at nw ps tm w (u # us) (Suc j))" using Cons.prems Suc by simp
      then show "isl (outcome_at nw ps tm ?w1 us j)"
        by (simp add: outcome_at_Cons_Suc [where l = ?l])
    qed
    have at: "outcome_at nw ps tm ?w1 us k = Inr v"
      using Cons.prems Suc by (simp add: outcome_at_Cons_Suc [where l = ?l])
    show ?thesis
      using Cons.IH [OF k before at, of "Some e"] step Suc by simp
  qed
qed

text \<open>
  C2. For a non-empty URL list \<^verbatim>\<open>request\<close> tries the URLs in list order. When every URL
  fails it raises the error of the last URL, having sent one request per URL, in order.
  When URL \<open>i\<close> is the first that succeeds, the failures before it are recovered, its
  decoded content is returned, and exactly the URLs up to \<open>i\<close> have been requested.
\<close>

theorem request_failover:
  "urls \<noteq> [] \<Longrightarrow>
   ((\<forall>i<length urls. isl (outcome_at nw ps tm w urls i)) \<longrightarrow>
      fst (request nw urls ps tm w) = Inl (projl (outcome_at nw ps tm w urls (length urls - 1))) \<and>
      sent (snd (request nw urls ps tm w)) = sent w @ map (\<lambda>u. (u, ps)) urls) \<and>
   (\<forall>i v. i < length urls \<and> (\<forall>j<i. isl (outcome_at nw ps tm w urls j)) \<and>
      outcome_at nw ps tm w urls i = Inr v \<longrightarrow>
      fst (request nw urls ps tm w) = Inr v \<and>
      sent (snd (request nw urls ps tm w)) = sent w @ map (\<lambda>u. (u, ps)) (take (Suc i) urls))"
proof (intro conjI impI allI)
  assume ne: "urls \<noteq> []" and all: "\<forall>i<length urls. isl (outcome_at nw ps tm w urls i)"
  from request_loop_all_fail [OF all, of None] ne
  show "fst (request nw urls ps tm w) = Inl (projl (outcome_at nw ps tm w urls (length urls - 1)))"
    and "sent (snd (request nw urls ps tm w)) = sent w @ map (\<lambda>u. (u, ps)) urls"
    by (simp_all add: request_def)
next
  fix i v
  assume h: "i < length urls \<and> (\<forall>j<i. isl (outcome_at nw ps tm w urls j)) \<and>
      outcome_at nw ps tm w urls i = Inr v"
  then have "fst (request_loop nw ps tm urls None w) = Inr v \<and>
      sent (snd (request_loop nw ps tm urls None w)) = sent w @ map (\<lambda>u. (u, ps)) (take (Suc i) urls)"
    by (intro request_loop_first_success) simp_all
  then show "fst (request nw urls ps tm w) = Inr v"
    and "sent (snd (request nw urls ps tm w)) = sent w @ map (\<lambda>u. (u, ps)) (take (Suc i) urls)"
    by (simp_all add: request_def)
qed

lemma net_bad_good_outcomes:
  "outcome_at net_bad_good None False w0 [''bad1'', ''bad2''] 0 = Inl (ClientConnectionError ''bad1'')"
  "outcome_at net_bad_good None False w0 [''bad1'', ''bad2''] (Suc 0) = Inl TimeoutError"
  "outcome_at net_bad_good None False w0 [''bad-url'', ''good-url''] 0 = Inl (ClientConnectionError ''bad-url'')"
  "outcome_at net_bad_good None False w0 [''bad-url'', ''good-url''] (Suc 0) = Inr (PStr ''hello'')"
  by code_simp+

lemma sent_w0: "sent w0 = []" by (simp add: w0_def)

theorem request_failover_witness:
  "fst (request net_bad_good [''bad1'', ''bad2''] None False w0) = Inl TimeoutError \<and>
   sent (snd (request net_bad_good [''bad1'', ''bad2''] None False w0)) = [(''bad1'', None), (''bad2'', None)] \<and>
   fst (request net_bad_good [''bad-url'', ''good-url''] None False w0) = Inr (PStr ''hello'')"
proof -
  have a: "\<forall>i<length [''bad1'', ''bad2'']. isl (outcome_at net_bad_good None False w0 [''bad1'', ''bad2''] i)"
    by (simp add: less_Suc_eq net_bad_good_outcomes)
  have b: "Suc 0 < length [''bad-url'', ''good-url''] \<and>
      (\<forall>j<Suc 0. isl (outcome_at net_bad_good None False w0 [''bad-url'', ''good-url''] j)) \<and>
      outcome_at net_bad_good None False w0 [''bad-url'', ''good-url''] (Suc 0) = Inr (PStr ''hello'')"
    by (simp add: net_bad_good_outcomes)
  from request_failover [of "[''bad1'', ''bad2'']" net_bad_good None False w0] a
  have 1: "fst (request net_bad_good [''bad1'', ''bad2''] None False w0) = Inl TimeoutError \<and>
      sent (snd (request net_bad_good [''bad1'', ''bad2''] None False w0)) = [(''bad1'', None), (''bad2'', None)]"
    by (simp add: net_bad_good_outcomes w0_def [symmetric] sent_w0)
  from request_failover [of "[''bad-url'', ''good-url'']" net_bad_good None False w0] b
  have 2: "fst (request net_bad_good [''bad-url'', ''good-url''] None False w0) = Inr (PStr ''hello'')"
    by blast
  from 1 2 show ?thesis by simp
qed

section \<open>Properties of \<^verbatim>\<open>get_data\<close>\<close>

text \<open>
  C9. Called with an empty URL list, \<^verbatim>\<open>request\<close> raises nothing and returns \<^verbatim>\<open>None\<close>: the
  loop body never runs, \<^verbatim>\<open>last_exc\<close> stays \<^verbatim>\<open>None\<close> and no request is sent. \<^verbatim>\<open>get_data\<close>
  then returns the pair \<^verbatim>\<open>(None, None)\<close>, whatever the params, type, target and helpers.
\<close>

theorem request_empty_urls_returns_none:
  "request nw [] ps test_mode w = (Inr PNone, w) \<and>
   get_data nw h [] ps api_type target w = (Inr (None, None), w)"
  by (simp add: request_def get_data_def final_data_def download_step_def target_step_def
      html_step_def as_text_def as_bytes_def)

text \<open>
  C1, as stated, fails: a successful fetch can return \<^verbatim>\<open>(None, None)\<close>. A JSON object
  fetched with an empty \<^verbatim>\<open>target\<close> is neither a string nor bytes, and \<^verbatim>\<open>get_data\<close> returns
  the empty pair without raising.
\<close>

theorem get_data_pair_counterexample:
  "fst (get_data net_json plain_helpers [''u''] None ''image'' [] w0) = Inr (None, None)"
  by code_simp

text \<open>
  C1, amended. \<^verbatim>\<open>get_data\<close> returns normally whenever the steps before line 76 do, and
  raises only what they raise: there is no empty-response failure. The pair it returns has
  at most one component populated: the text when the final value is a string, the bytes
  when it is raw binary, and \<^verbatim>\<open>(None, None)\<close> when it is anything else. In particular a
  fetched value that is not a string, with an empty \<^verbatim>\<open>target\<close> or not a dict, is returned as
  bytes or as \<^verbatim>\<open>(None, None)\<close>.
\<close>

theorem get_data_pair:
  "(\<forall>data w'. final_data nw h urls ps api_type target w = (Inr data, w') \<longrightarrow>
      get_data nw h urls ps api_type target w =
        (Inr (case data of PStr s \<Rightarrow> (Some s, None) | PBytes x \<Rightarrow> (None, Some x)
              | _ \<Rightarrow> (None, None)), w')) \<and>
   (\<forall>e w'. final_data nw h urls ps api_type target w = (Inl e, w') \<longrightarrow>
      get_data nw h urls ps api_type target w = (Inl e, w')) \<and>
   (\<forall>v w'. request nw urls ps False w = (Inr v, w') \<and> (\<forall>s. v \<noteq> PStr s) \<and>
        (target = [] \<or> (\<forall>dd. v \<noteq> PDict dd)) \<longrightarrow>
      get_data nw h urls ps api_type target w =
        (Inr (case v of PBytes x \<Rightarrow> (None, Some x) | _ \<Rightarrow> (None, None)), w')) \<and>
   (\<forall>t b w'. get_data nw h urls ps api_type target w = (Inr (t, b), w') \<longrightarrow>
      (\<exists>data. final_data nw h urls ps api_type target w = (Inr data, w') \<and>
         (t, b) = (case data of PStr s \<Rightarrow> (Some s, None) | PBytes x \<Rightarrow> (None, Some x)
                   | _ \<Rightarrow> (None, None))))"
proof (intro conjI allI impI)
  fix data w'
  assume "final_data nw h urls ps api_type target w = (Inr data, w')"
  then show "get_data nw h urls ps api_type target w =
        (Inr (case data of PStr s \<Rightarrow> (Some s, None) | PBytes x \<Rightarrow> (None, Some x)
              | _ \<Rightarrow> (None, None)), w')"
    by (cases data) (simp_all add: get_data_def as_text_def as_bytes_def)
next
  fix e w'
  assume "final_data nw h urls ps api_type target w = (Inl e, w')"
  then show "get_data nw h urls ps api_type target w = (Inl e, w')"
    by (simp add: get_data_def)
next
  fix v w'
  assume a: "request nw urls ps False w = (Inr v, w') \<and> (\<forall>s. v \<noteq> PStr s) \<and>
        (target = [] \<or> (\<forall>dd. v \<noteq> PDict dd))"
  then have "final_data nw h urls ps api_type target w = (Inr v, w')"
    by (cases v) (auto simp: final_data_def download_step_def target_step_def html_step_def)
  with a show "get_data nw h urls ps api_type target w =
        (Inr (case v of PBytes x \<Rightarrow> (None, Some x) | _ \<Rightarrow> (None, None)), w')"
    by (cases v) (simp_all add: get_data_def as_text_def as_bytes_def)
next
  fix t b w'
  assume "get_data nw h urls ps api_type target w = (Inr (t, b), w')"
  then show "\<exists>data. final_data nw h urls ps api_type target w = (Inr data, w') \<and>
         (t, b) = (case data of PStr s \<Rightarrow> (Some s, None) | PBytes x \<Rightarrow> (None, Some x)
                   | _ \<Rightarrow> (None, None))"
    by (auto simp: get_data_def as_text_def as_bytes_def split: prod.splits sum.splits pyval.splits)
qed

lemma get_data_hello:
  "get_data net_bad_good plain_helpers [''good-url''] None ''text'' [] w0 =
     (Inr (Some ''hello'', None), \<lparr>sent = [(''good-url'', None)], logged = []\<rparr>)"
  by code_simp

lemma net_json_request:
  "request net_json [''u''] None False w0 =
     (Inr (PDict [(''code'', PInt 1)]), \<lparr>sent = [(''u'', None)], logged = []\<rparr>)"
  by code_simp

theorem get_data_pair_witness:
  "request net_json [''u''] None False w0 =
     (Inr (PDict [(''code'', PInt 1)]), \<lparr>sent = [(''u'', None)], logged = []\<rparr>) \<and>
   get_data net_json plain_helpers [''u''] None ''image'' [] w0 =
     (Inr (None, None), \<lparr>sent = [(''u'', None)], logged = []\<rparr>) \<and>
   get_data net_bad_good plain_helpers [''good-url''] None ''text'' [] w0 =
     (Inr (Some ''hello'', None), \<lparr>sent = [(''good-url'', None)], logged = []\<rparr>)"
proof -
  have c: "request net_json [''u''] None False w0 =
      (Inr (PDict [(''code'', PInt 1)]), \<lparr>sent = [(''u'', None)], logged = []\<rparr>) \<and>
      (\<forall>s. PDict [(''code'', PInt 1)] \<noteq> PStr s) \<and>
      (([] :: string) = [] \<or> (\<forall>dd. PDict [(''code'', PInt 1)] \<noteq> PDict dd))"
    using net_json_request by simp
  have "get_data net_json plain_helpers [''u''] None ''image'' [] w0 =
      (Inr (case PDict [(''code'', PInt 1)] of PBytes x \<Rightarrow> (None, Some x) | _ \<Rightarrow> (None, None)),
       \<lparr>sent = [(''u'', None)], logged = []\<rparr>)"
    by (rule get_data_pair [of net_json plain_helpers "[''u'']" None "''image''" "[]" w0,
          THEN conjunct2, THEN conjunct2, THEN conjunct1, THEN spec, THEN spec, THEN mp, OF c])
  then have 1: "get_data net_json plain_helpers [''u''] None ''image'' [] w0 =
      (Inr (None, None), \<lparr>sent = [(''u'', None)], logged = []\<rparr>)"
    by simp
  from 1 net_json_request get_data_hello show ?thesis by (intro conjI)
qed

text \<open>
  C5, as stated, fails: here the first fetch returns a string holding a URL, the type is
  not \<^verbatim>\<open>text\<close>, and the redownload yields no bytes because its request times out.
  \<^verbatim>\<open>get_data\<close> then raises that timeout, not the download failure with the found URL.
\<close>

theorem get_data_redownload_counterexample:
  "fst (request net_indirect_fail [''u''] (Some []) False w0) = Inr (PStr ''http://x/y.png'') \<and>
   extract_url plain_helpers ''http://x/y.png'' = Some ''http://x/y.png'' \<and>
   fst (get_data net_indirect_fail plain_helpers [''u''] (Some []) ''image'' [] w0) = Inl TimeoutError"
  by code_simp

text \<open>
  C5, amended. When the first fetch returns a string and the type is not \<^verbatim>\<open>text\<close>: if
  \<^verbatim>\<open>extract_url\<close> finds a URL, the redownload is \<^verbatim>\<open>request\<close> on the same \<^verbatim>\<open>urls\<close> with no
  params; bytes from it replace the string, any other returned value raises
  \<^verbatim>\<open>RuntimeError\<close> carrying the found URL, and an exception of the redownload itself
  propagates unchanged. If no URL is found, no further request is made and the string is
  kept (and then passed through the HTML step).
\<close>

theorem get_data_redownload:
  assumes "request nw urls ps False w = (Inr (PStr s), w1)" and "api_type \<noteq> ''text''"
  shows
   "(\<forall>url. extract_url h s = Some url \<and> url \<noteq> [] \<longrightarrow>
       (\<forall>b w2. request nw urls None False w1 = (Inr (PBytes b), w2) \<longrightarrow>
          get_data nw h urls ps api_type target w = (Inr (None, Some b), w2)) \<and>
       (\<forall>v w2. request nw urls None False w1 = (Inr v, w2) \<and> (\<forall>b. v \<noteq> PBytes b) \<longrightarrow>
          get_data nw h urls ps api_type target w = (Inl (RuntimeError url), w2)) \<and>
       (\<forall>e w2. request nw urls None False w1 = (Inl e, w2) \<longrightarrow>
          get_data nw h urls ps api_type target w = (Inl e, w2))) \<and>
    (extract_url h s = None \<or> extract_url h s = Some [] \<longrightarrow>
       get_data nw h urls ps api_type target w =
         (Inr (Some (if startswith (strip s) ''<!DOCTYPE html>'' then get_text h s else s), None), w1))"
proof (intro conjI allI impI)
  fix url b w2
  assume "extract_url h s = Some url \<and> url \<noteq> []" "request nw urls None False w1 = (Inr (PBytes b), w2)"
  with assms show "get_data nw h urls ps api_type target w = (Inr (None, Some b), w2)"
    by (simp add: get_data_def final_data_def download_step_def target_step_def html_step_def
        as_text_def as_bytes_def)
next
  fix url v w2
  assume "extract_url h s = Some url \<and> url \<noteq> []"
    "request nw urls None False w1 = (Inr v, w2) \<and> (\<forall>b. v \<noteq> PBytes b)"
  with assms show "get_data nw h urls ps api_type target w = (Inl (RuntimeError url), w2)"
    by (cases v) (simp_all add: get_data_def final_data_def download_step_def)
next
  fix url e w2
  assume "extract_url h s = Some url \<and> url \<noteq> []" "request nw urls None False w1 = (Inl e, w2)"
  with assms show "get_data nw h urls ps api_type target w = (Inl e, w2)"
    by (simp add: get_data_def final_data_def download_step_def)
next
  assume "extract_url h s = None \<or> extract_url h s = Some []"
  with assms show "get_data nw h urls ps api_type target w =
         (Inr (Some (if startswith (strip s) ''<!DOCTYPE html>'' then get_text h s else s), None), w1)"
    by (auto simp: get_data_def final_data_def download_step_def target_step_def html_step_def
        as_text_def as_bytes_def)
qed

lemma net_indirect_first:
  "request net_indirect [''u''] (Some []) False w0 =
     (Inr (PStr ''http://x/y.png''), \<lparr>sent = [(''u'', Some [])], logged = []\<rparr>)"
  by code_simp

lemma net_indirect_second:
  "request net_indirect [''u''] None False \<lparr>sent = [(''u'', Some [])], logged = []\<rparr> =
     (Inr (PBytes [1, 2, 3]), \<lparr>sent = [(''u'', Some []), (''u'', None)], logged = []\<rparr>)"
  by code_simp

lemma plain_helpers_url: "extract_url plain_helpers ''http://x/y.png'' = Some ''http://x/y.png''"
  by code_simp

theorem get_data_redownload_witness:
  "request net_indirect [''u''] (Some []) False w0 =
     (Inr (PStr ''http://x/y.png''), \<lparr>sent = [(''u'', Some [])], logged = []\<rparr>) \<and>
   ''image'' \<noteq> ''text'' \<and>
   get_data net_indirect plain_helpers [''u''] (Some []) ''image'' [] w0 =
     (Inr (None, Some [1, 2, 3]), \<lparr>sent = [(''u'', Some []), (''u'', None)], logged = []\<rparr>)"
proof -
  have ne: "''image'' \<noteq> ''text''" by simp
  from get_data_redownload [OF net_indirect_first ne, of plain_helpers "[]"]
    plain_helpers_url net_indirect_second
  have "get_data net_indirect plain_helpers [''u''] (Some []) ''image'' [] w0 =
     (Inr (None, Some [1, 2, 3]), \<lparr>sent = [(''u'', Some []), (''u'', None)], logged = []\<rparr>)"
    by blast
  with net_indirect_first ne show ?thesis by blast
qed

section \<open>Properties of \<^verbatim>\<open>call_api\<close>\<close>

text \<open>
  C10. In \<^verbatim>\<open>call_api\<close>, a \<^verbatim>\<open>get_data\<close> call that returns a pair with neither text nor bytes
  (absent or empty) ends as a \<^verbatim>\<open>get_data\<close> call that raises: nothing is saved, the local
  cache is read, and the result is the cached content tagged \<^verbatim>\<open>local\<close>, or no content tagged
  \<^verbatim>\<open>error\<close> when the cache read fails. The tag \<^verbatim>\<open>api\<close> is returned only when \<^verbatim>\<open>get_data\<close>
  produced content.
\<close>

theorem call_api_empty_like_failure:
  "get_data nw h (n_urls a) (Some (if truthy ps then the ps else n_params a)) (n_type a)
     (n_target a) w = r \<Longrightarrow>
   ((\<exists>t b w1. r = (Inr (t, b), w1) \<and> \<not> truthy t \<and> \<not> truthy b) \<or> (\<exists>e w1. r = (Inl e, w1)) \<longrightarrow>
      fst (call_api nw h lm a ps w c) =
        (case fst (local_get_data lm c (n_type a) (n_name a)) of
           Inr (local_text, local_path) \<Rightarrow> (local_text, local_path, ''local'')
         | Inl e \<Rightarrow> (None, None, ''error'')) \<and>
      snd (snd (call_api nw h lm a ps w c)) = snd (local_get_data lm c (n_type a) (n_name a))) \<and>
   (snd (snd (fst (call_api nw h lm a ps w c))) = ''api'' \<longrightarrow>
      (\<exists>t b w1. r = (Inr (t, b), w1) \<and> (truthy t \<or> truthy b)))"
  by (auto simp: call_api_def local_fallback_def split: prod.splits sum.splits)

lemma call_api_example_fetch:
  "get_data net_json plain_helpers (n_urls api_u)
     (Some (if truthy None then the None else n_params api_u)) (n_type api_u) (n_target api_u) w0 =
   (Inr (None, None), \<lparr>sent = [(''u'', Some [])], logged = []\<rparr>)"
  by code_simp

lemma call_api_example_cache:
  "fst (local_get_data list_cache [''joke''] (n_type api_u) (n_name api_u)) = Inr (Some ''cached'', None)"
  "snd (local_get_data list_cache [''joke''] (n_type api_u) (n_name api_u)) = [''joke'']"
  "fst (local_get_data list_cache [] (n_type api_u) (n_name api_u)) = Inl (OSError ''joke'')"
  by code_simp+

theorem call_api_empty_like_failure_witness:
  "fst (call_api net_json plain_helpers list_cache api_u None w0 [''joke'']) =
     (Some ''cached'', None, ''local'') \<and>
   snd (snd (call_api net_json plain_helpers list_cache api_u None w0 [''joke''])) = [''joke''] \<and>
   fst (call_api net_json plain_helpers list_cache api_u None w0 []) = (None, None, ''error'')"
proof -
  have e: "\<not> truthy (None :: string option)" "\<not> truthy (None :: bytes option)"
    by (simp_all add: truthy_def)
  from call_api_empty_like_failure [OF call_api_example_fetch, of list_cache "[''joke'']"] e
  have 1: "fst (call_api net_json plain_helpers list_cache api_u None w0 [''joke'']) =
     (Some ''cached'', None, ''local'') \<and>
   snd (snd (call_api net_json plain_helpers list_cache api_u None w0 [''joke''])) = [''joke'']"
    by (simp add: call_api_example_cache)
  from call_api_empty_like_failure [OF call_api_example_fetch, of list_cache "[]"] e
  have 2: "fst (call_api net_json plain_helpers list_cache api_u None w0 []) = (None, None, ''error'')"
    by (simp add: call_api_example_cache)
  from 1 2 show ?thesis by simp
qed

section \<open>Properties of the registry\<close>

lemma dict_get_dict_set:
  "dict_get (dict_set d k v) k' = (if k' = k then Some v else dict_get d k')"
  by (induction d) auto

text \<open>
  C7, as stated, fails: \<^verbatim>\<open>add_api\<close> on a definition without a \<^verbatim>\<open>keyword\<close> field does not
  fail. It logs an error and returns normally, as it does after a successful insertion.
\<close>

theorem add_api_no_keyword_counterexample:
  "add_api empty_api st0 = Inr (st0\<lparr>reg_logged := [MissingKeyword]\<rparr>)"
  by (simp add: add_api_def primary_name_def empty_api_def st0_def)

text \<open>
  C7, amended. \<^verbatim>\<open>add_api\<close> inserts or overwrites the entry keyed by the primary keyword
  (the first element of the keyword list, or the keyword string itself), leaves every
  other entry as it was, and writes the whole dict to the file. When the keyword is absent,
  is the empty string, or is a list whose first element is the empty string, it only logs
  the missing keyword and returns normally: dict and file are unchanged.
\<close>

theorem add_api_registers:
  "((r_keyword api_info = Some (StrList (name # ks)) \<or> r_keyword api_info = Some (Str name)) \<and>
      name \<noteq> [] \<longrightarrow>
      (\<exists>st'. add_api api_info st = Inr st' \<and>
         dict_get (reg_apis st') name = Some api_info \<and>
         (\<forall>k. k \<noteq> name \<longrightarrow> dict_get (reg_apis st') k = dict_get (reg_apis st) k) \<and>
         reg_file st' = Some (reg_apis st'))) \<and>
   (r_keyword api_info = None \<or> r_keyword api_info = Some (Str []) \<or>
      (\<exists>ks. r_keyword api_info = Some (StrList ([] # ks))) \<longrightarrow>
      add_api api_info st = Inr (st\<lparr>reg_logged := reg_logged st @ [MissingKeyword]\<rparr>))"
  by (auto simp: add_api_def primary_name_def save_data_file_def dict_get_dict_set Let_def)

lemma joke_keyword: "r_keyword joke_api = Some (StrList (''joke'' # [''fun'']))"
  by (simp add: joke_api_def)

theorem add_api_registers_witness:
  "r_keyword joke_api = Some (StrList (''joke'' # [''fun''])) \<and>
   (\<exists>st'. add_api joke_api st0 = Inr st' \<and> dict_get (reg_apis st') ''joke'' = Some joke_api \<and>
      reg_file st' = Some (reg_apis st')) \<and>
   r_keyword empty_api = None \<and>
   add_api empty_api st0 = Inr (st0\<lparr>reg_logged := reg_logged st0 @ [MissingKeyword]\<rparr>)"
proof -
  have n: "r_keyword empty_api = None" by (simp add: empty_api_def)
  from add_api_registers [of joke_api "''joke''" "[''fun'']" st0] joke_keyword
  have 1: "\<exists>st'. add_api joke_api st0 = Inr st' \<and> dict_get (reg_apis st') ''joke'' = Some joke_api \<and>
      reg_file st' = Some (reg_apis st')"
    by auto
  from add_api_registers [of empty_api "''x''" "[]" st0] n
  have 2: "add_api empty_api st0 = Inr (st0\<lparr>reg_logged := reg_logged st0 @ [MissingKeyword]\<rparr>)"
    by blast
  from 1 2 n joke_keyword show ?thesis by blast
qed

section \<open>Properties of \<^verbatim>\<open>match_api_by_name\<close>\<close>

lemma collect_matches_iff:
  "(p, key, raw) \<in> set (collect_matches d msg) \<longleftrightarrow>
     (key, raw) \<in> set d \<and> matched raw msg \<and> p = priority_of raw"
  by (auto simp: collect_matches_def)

lemma sort_matches_set: "set (sort_matches ms) = set ms"
  by (simp add: sort_matches_def)

lemma sort_matches_head_max:
  assumes "sort_matches ms = m # rest" and "x \<in> set ms"
  shows "fst x \<le> fst m"
proof -
  have "sorted (map (\<lambda>m. - fst m) (sort_matches ms))"
    by (simp add: sort_matches_def)
  with assms(1) have "\<forall>y\<in>set rest. - fst m \<le> - fst y" by simp
  moreover from assms have "x = m \<or> x \<in> set rest"
    using sort_matches_set [of ms] by auto
  ultimately show ?thesis by auto
qed

lemma random_choice_in: "xs \<noteq> [] \<Longrightarrow> random_choice r xs \<in> set xs"
  by (simp add: random_choice_def)

lemma match_api_by_name_selected:
  assumes "collect_matches d msg \<noteq> []"
  shows "\<exists>sel. sel \<in> set (collect_matches d msg) \<and>
     (\<forall>x\<in>set (collect_matches d msg). fst x \<le> fst sel) \<and>
     match_api_by_name d r msg = Some (normalize_api_data d (fst (snd sel)))"
proof -
  let ?ms = "collect_matches d msg"
  from assms have "sort_matches ?ms \<noteq> []"
    using sort_matches_set [of ?ms] by (metis set_empty)
  then obtain m rest where s: "sort_matches ?ms = m # rest"
    by (cases "sort_matches ?ms") auto
  let ?same = "filter (\<lambda>m'. fst m' = fst m) (m # rest)"
  let ?sel = "random_choice r ?same"
  have ne: "?same \<noteq> []" by simp
  have "?sel \<in> set ?same" by (rule random_choice_in [OF ne])
  then have sel: "?sel \<in> set (m # rest)" "fst ?sel = fst m" by auto
  have eq: "set (sort_matches ?ms) = set ?ms" by (rule sort_matches_set)
  from sel(1) have "?sel \<in> set (sort_matches ?ms)" unfolding s .
  with eq have mem: "?sel \<in> set ?ms" by blast
  have mx: "\<forall>x\<in>set ?ms. fst x \<le> fst ?sel"
    using sort_matches_head_max [OF s] sel(2) by simp
  have res: "match_api_by_name d r msg = Some (normalize_api_data d (fst (snd ?sel)))"
    by (simp add: match_api_by_name_def s Let_def)
  from mem mx res show ?thesis by blast
qed

text \<open>
  C3. When at least one registered definition matches the trigger, \<^verbatim>\<open>match_api_by_name\<close>
  returns, for every draw of the random source, the normalized definition of a match whose
  priority is the maximum over all matches. When one match has a priority strictly above
  every other match (priorities 5 and 3, say), that match is returned whatever the draw.
\<close>

theorem match_api_by_name_max_priority:
  "(key0, raw0) \<in> set d \<Longrightarrow> matched raw0 msg \<Longrightarrow>
   (\<exists>key raw. (key, raw) \<in> set d \<and> matched raw msg \<and>
      (\<forall>(k', r')\<in>set d. matched r' msg \<longrightarrow> priority_of r' \<le> priority_of raw) \<and>
      match_api_by_name d r msg = Some (normalize_api_data d key)) \<and>
   ((\<forall>(k', r')\<in>set d. matched r' msg \<and> (k', r') \<noteq> (key0, raw0) \<longrightarrow>
        priority_of r' < priority_of raw0) \<longrightarrow>
      match_api_by_name d r msg = Some (normalize_api_data d key0))"
proof -
  assume m0: "(key0, raw0) \<in> set d" "matched raw0 msg"
  then have "(priority_of raw0, key0, raw0) \<in> set (collect_matches d msg)"
    by (simp add: collect_matches_iff)
  then have ne: "collect_matches d msg \<noteq> []" by auto
  from match_api_by_name_selected [OF ne, of r] obtain sel where
    sel: "sel \<in> set (collect_matches d msg)"
    and mx: "\<forall>x\<in>set (collect_matches d msg). fst x \<le> fst sel"
    and res: "match_api_by_name d r msg = Some (normalize_api_data d (fst (snd sel)))"
    by blast
  obtain p key raw where sel_eq: "sel = (p, key, raw)" by (cases sel) auto
  from sel sel_eq have in_d: "(key, raw) \<in> set d" "matched raw msg" "p = priority_of raw"
    by (simp_all add: collect_matches_iff)
  have le: "priority_of r' \<le> priority_of raw" if "(k', r') \<in> set d" "matched r' msg" for k' r'
  proof -
    from that have "(priority_of r', k', r') \<in> set (collect_matches d msg)"
      by (simp add: collect_matches_iff)
    with mx have "fst (priority_of r', k', r') \<le> fst sel" by (rule bspec)
    with sel_eq in_d(3) show ?thesis by simp
  qed
  have res': "match_api_by_name d r msg = Some (normalize_api_data d key)"
    using res sel_eq by simp
  have first: "\<exists>key raw. (key, raw) \<in> set d \<and> matched raw msg \<and>
      (\<forall>(k', r')\<in>set d. matched r' msg \<longrightarrow> priority_of r' \<le> priority_of raw) \<and>
      match_api_by_name d r msg = Some (normalize_api_data d key)"
  proof (intro exI conjI)
    show "(key, raw) \<in> set d" by (rule in_d(1))
    show "matched raw msg" by (rule in_d(2))
    show "\<forall>(k', r')\<in>set d. matched r' msg \<longrightarrow> priority_of r' \<le> priority_of raw"
      using le by auto
    show "match_api_by_name d r msg = Some (normalize_api_data d key)" by (rule res')
  qed
  have second: "match_api_by_name d r msg = Some (normalize_api_data d key0)"
    if u: "\<forall>(k', r')\<in>set d. matched r' msg \<and> (k', r') \<noteq> (key0, raw0) \<longrightarrow>
        priority_of r' < priority_of raw0"
  proof -
    have "(key, raw) = (key0, raw0)"
    proof (rule ccontr)
      assume neq: "(key, raw) \<noteq> (key0, raw0)"
      from u in_d(1) have "matched raw msg \<and> (key, raw) \<noteq> (key0, raw0) \<longrightarrow>
          priority_of raw < priority_of raw0" by fast
      with in_d(2) neq have "priority_of raw < priority_of raw0" by simp
      moreover from le [OF m0] have "priority_of raw0 \<le> priority_of raw" .
      ultimately show False by simp
    qed
    with res' show ?thesis by simp
  qed
  from first second show ?thesis by blast
qed

lemma cat_member:
  "(''cat'', kw_api [''cat''] False 3) \<in> set cat_apis"
  by (simp add: cat_apis_def)

lemma cat_matched: "matched (kw_api [''cat''] False 3) ''cat''"
  by (simp add: matched_def kw_api_def keywords_of_def)

lemma kitty_member:
  "(''kitty'', kw_api [''kitty'', ''cat''] False 5) \<in> set cat_apis"
  by (simp add: cat_apis_def)

lemma kitty_matched: "matched (kw_api [''kitty'', ''cat''] False 5) ''cat''"
  by (simp add: matched_def kw_api_def keywords_of_def)

lemma kitty_unique:
  "\<forall>(k', r')\<in>set cat_apis. matched r' ''cat'' \<and>
      (k', r') \<noteq> (''kitty'', kw_api [''kitty'', ''cat''] False 5) \<longrightarrow>
      priority_of r' < priority_of (kw_api [''kitty'', ''cat''] False 5)"
  by (simp add: cat_apis_def priority_of_def kw_api_def)

theorem match_api_by_name_max_priority_witness:
  "(''kitty'', kw_api [''kitty'', ''cat''] False 5) \<in> set cat_apis \<and>
   matched (kw_api [''kitty'', ''cat''] False 5) ''cat'' \<and>
   (''cat'', kw_api [''cat''] False 3) \<in> set cat_apis \<and>
   matched (kw_api [''cat''] False 3) ''cat'' \<and>
   match_api_by_name cat_apis 7 ''cat'' = Some (normalize_api_data cat_apis ''kitty'')"
proof -
  from match_api_by_name_max_priority [OF kitty_member kitty_matched, of 7] kitty_unique
  have "match_api_by_name cat_apis 7 ''cat'' = Some (normalize_api_data cat_apis ''kitty'')"
    by (elim conjE impE)
  with kitty_member kitty_matched cat_member cat_matched show ?thesis by (intro conjI)
qed

lemma matched_iff:
  "matched raw msg \<longleftrightarrow>
     msg \<in> set (keywords_of raw) \<or>
     (is_fuzzy raw \<and> (\<exists>k\<in>set (keywords_of raw). \<exists>pre suf. msg = pre @ k @ suf))"
  by (auto simp: matched_def str_contains_def sublist_def list_ex_iff)

lemma matched_empty_trigger: "matched raw [] \<Longrightarrow> [] \<in> set (keywords_of raw)"
  by (auto simp: matched_iff)

lemma no_match_None: "\<forall>(key, raw)\<in>set d. \<not> matched raw msg \<Longrightarrow> match_api_by_name d r msg = None"
proof -
  assume a: "\<forall>(key, raw)\<in>set d. \<not> matched raw msg"
  then have "filter (\<lambda>(key, raw). matched raw msg) d = []"
    by (auto simp: filter_empty_conv)
  then show ?thesis
    by (simp add: match_api_by_name_def collect_matches_def sort_matches_def)
qed

text \<open>
  C8. When no registered definition has the empty string among its keywords,
  \<^verbatim>\<open>match_api_by_name\<close> on the empty trigger returns \<^verbatim>\<open>None\<close>. A definition matches a trigger
  when the trigger equals one of its keywords or, for a fuzzy definition, when a keyword
  occurs in the trigger as a contiguous, case-sensitive substring: the keyword \<^verbatim>\<open>ab\<close>
  matches the trigger \<^verbatim>\<open>abc\<close>, the keyword \<^verbatim>\<open>AB\<close> does not, and without the fuzzy flag
  neither does.
\<close>

theorem empty_trigger_and_fuzzy_containment:
  "((\<forall>(key, raw)\<in>set d. [] \<notin> set (keywords_of raw)) \<longrightarrow> match_api_by_name d r [] = None) \<and>
   (matched raw msg \<longleftrightarrow>
      msg \<in> set (keywords_of raw) \<or>
      (is_fuzzy raw \<and> (\<exists>k\<in>set (keywords_of raw). \<exists>pre suf. msg = pre @ k @ suf))) \<and>
   matched (kw_api [''ab''] True 0) ''abc'' \<and>
   \<not> matched (kw_api [''AB''] True 0) ''abc'' \<and>
   \<not> matched (kw_api [''ab''] False 0) ''abc''"
proof (intro conjI impI)
  assume "\<forall>(key, raw)\<in>set d. [] \<notin> set (keywords_of raw)"
  then have "\<forall>(key, raw)\<in>set d. \<not> matched raw []"
    using matched_empty_trigger by fastforce
  then show "match_api_by_name d r [] = None" by (rule no_match_None)
next
  show "matched raw msg \<longleftrightarrow>
      msg \<in> set (keywords_of raw) \<or>
      (is_fuzzy raw \<and> (\<exists>k\<in>set (keywords_of raw). \<exists>pre suf. msg = pre @ k @ suf))"
    by (rule matched_iff)
next
  show "matched (kw_api [''ab''] True 0) ''abc''" by code_simp
  show "\<not> matched (kw_api [''AB''] True 0) ''abc''" by code_simp
  show "\<not> matched (kw_api [''ab''] False 0) ''abc''" by code_simp
qed

lemma cat_apis_keywords: "\<forall>(key, raw)\<in>set cat_apis. [] \<notin> set (keywords_of raw)"
  by code_simp

theorem empty_trigger_and_fuzzy_containment_witness:
  "map (\<lambda>(key, raw). keywords_of raw) cat_apis = [[''cat''], [''kitty'', ''cat''], [''ab'']] \<and>
   match_api_by_name cat_apis 0 [] = None"
proof -
  have "match_api_by_name cat_apis 0 [] = None"
    by (rule empty_trigger_and_fuzzy_containment [of cat_apis 0, THEN conjunct1, THEN mp,
          OF cat_apis_keywords])
  moreover have "map (\<lambda>(key, raw). keywords_of raw) cat_apis =
      [[''cat''], [''kitty'', ''cat''], [''ab'']]"
    by code_simp
  ultimately show ?thesis by (intro conjI)
qed

section \<open>Properties of \<^verbatim>\<open>normalize_api_data\<close>\<close>





















section \<open>Properties of \<^verbatim>\<open>batch_test_apis\<close>\<close>























end
